theory Spec2Isabelle
  imports Main "HOL-Library.Word"
begin

section \<open>Display\_EPD\_W21\_spi.h: pins, GPIO macros and the byte-transfer prototypes\<close>

subsection \<open>Pin assignment (lines 7 to 10)\<close>

text \<open>
  The four \<^verbatim>\<open>#define\<close>s are C integer literals, so each is an \<open>int\<close> constant.
\<close>

definition EPD_CS_PIN :: int where
  "EPD_CS_PIN = 7"

definition EPD_DC_PIN :: int where
  "EPD_DC_PIN = 3"

definition EPD_RST_PIN :: int where
  "EPD_RST_PIN = 0"

definition EPD_BUSY_PIN :: int where
  "EPD_BUSY_PIN = 1"

subsection \<open>The GPIO interface of Arduino.h\<close>

text \<open>
  Modelled from the spec: \<^verbatim>\<open>LOW\<close>, \<^verbatim>\<open>HIGH\<close>, \<^verbatim>\<open>digitalWrite\<close> and \<^verbatim>\<open>digitalRead\<close>
  come from \<^verbatim>\<open>Arduino.h\<close>, the platform header the file includes; the header under
  study only names them. They are modelled as the mock GPIO of section 8 of the
  specification: the only state is the level of each pin, set and read synchronously
  (section 3). A pin state gives every pin number its level; \<^verbatim>\<open>digitalWrite\<close> returns
  \<^verbatim>\<open>void\<close>, so its model returns the new pin state and nothing else; \<^verbatim>\<open>digitalRead\<close>
  returns the level read together with the pin state it leaves behind. The pins are
  taken to be configured for their direction by the caller.
\<close>

datatype level = LOW | HIGH

type_synonym gpio = "int \<Rightarrow> level"

definition digitalWrite :: "int \<Rightarrow> level \<Rightarrow> gpio \<Rightarrow> gpio" where
  "digitalWrite pin val s = s(pin := val)"

definition digitalRead :: "int \<Rightarrow> gpio \<Rightarrow> level \<times> gpio" where
  "digitalRead pin s = (s pin, s)"

subsection \<open>The control macros (lines 13 to 19)\<close>

text \<open>
  Each macro is one call, on the pin constant and the level that its text names. The six
  writing macros are statements: they take the pin state to the next one. The busy macro
  is an expression: it yields a level.
\<close>

definition EPD_W21_CS_0 :: "gpio \<Rightarrow> gpio" where
  "EPD_W21_CS_0 = digitalWrite EPD_CS_PIN LOW"

definition EPD_W21_CS_1 :: "gpio \<Rightarrow> gpio" where
  "EPD_W21_CS_1 = digitalWrite EPD_CS_PIN HIGH"

definition EPD_W21_DC_0 :: "gpio \<Rightarrow> gpio" where
  "EPD_W21_DC_0 = digitalWrite EPD_DC_PIN LOW"

definition EPD_W21_DC_1 :: "gpio \<Rightarrow> gpio" where
  "EPD_W21_DC_1 = digitalWrite EPD_DC_PIN HIGH"

definition EPD_W21_RST_0 :: "gpio \<Rightarrow> gpio" where
  "EPD_W21_RST_0 = digitalWrite EPD_RST_PIN LOW"

definition EPD_W21_RST_1 :: "gpio \<Rightarrow> gpio" where
  "EPD_W21_RST_1 = digitalWrite EPD_RST_PIN HIGH"

definition isEPD_W21_BUSY :: "gpio \<Rightarrow> level \<times> gpio" where
  "isEPD_W21_BUSY = digitalRead EPD_BUSY_PIN"

subsection \<open>The prototypes (lines 22 and 23)\<close>

text \<open>
  The header declares the two functions and defines neither. A declaration is data: its
  return type, its name and the list of its parameters, each a type and a name.
\<close>

datatype ctype = Void | UnsignedChar

record prototype =
  ret :: ctype
  ident :: string
  params :: "(ctype \<times> string) list"

definition EPD_W21_WriteCMD_decl :: prototype where
  "EPD_W21_WriteCMD_decl =
     \<lparr>ret = Void, ident = ''EPD_W21_WriteCMD'', params = [(UnsignedChar, ''command'')]\<rparr>"

definition EPD_W21_WriteDATA_decl :: prototype where
  "EPD_W21_WriteDATA_decl =
     \<lparr>ret = Void, ident = ''EPD_W21_WriteDATA'', params = [(UnsignedChar, ''data'')]\<rparr>"

text \<open>
  Modelled from the spec: the width and the signedness of \<^verbatim>\<open>unsigned char\<close> belong to
  the target's C implementation, which the header does not state. Section 4.3 of the
  specification calls the parameter an unsigned value of eight bits.
\<close>

fun ctype_bits :: "ctype \<Rightarrow> nat" where
  "ctype_bits Void = 0"
| "ctype_bits UnsignedChar = 8"

fun ctype_signed :: "ctype \<Rightarrow> bool" where
  "ctype_signed Void = False"
| "ctype_signed UnsignedChar = False"

subsection \<open>The bodies of the two byte-transfer functions\<close>

text \<open>
  The harness of section 8 of the specification: the pins, and a chronological log with
  one entry for each step taken. A GPIO step logs the pin state it produced; a transfer
  logs the byte shifted out and the pin state during the transfer.
\<close>

type_synonym byte = "8 word"

datatype event = Pins gpio | Shift byte gpio

record harness =
  pins :: gpio
  log :: "event list"

definition gpio_step :: "(gpio \<Rightarrow> gpio) \<Rightarrow> harness \<Rightarrow> harness" where
  "gpio_step f h = (let g = f (pins h) in \<lparr>pins = g, log = log h @ [Pins g]\<rparr>)"

text \<open>
  Modelled from the spec: the routine that shifts one byte out over the SPI bus is not
  in the header. Bit order, clock polarity and timing are left open by the
  specification (section 9); the model keeps the byte as a whole and touches no pin.
\<close>

definition SPI_shift_out :: "byte \<Rightarrow> harness \<Rightarrow> harness" where
  "SPI_shift_out b h = h\<lparr>log := log h @ [Shift b (pins h)]\<rparr>"

text \<open>
  Modelled from the spec: the bodies of \<^verbatim>\<open>EPD_W21_WriteCMD\<close> and
  \<^verbatim>\<open>EPD_W21_WriteDATA\<close> are missing; the header only declares them. Section 4.3 of the
  specification gives the steps: assert chip-select, set the data/command line for the
  mode, shift the byte out, deassert chip-select. The specification does not say which
  level of the data/command line means command; the model takes the controller's
  convention, low for a command and high for data.
\<close>

definition EPD_W21_WriteCMD :: "byte \<Rightarrow> harness \<Rightarrow> harness" where
  "EPD_W21_WriteCMD command h =
     gpio_step EPD_W21_CS_1
       (SPI_shift_out command
         (gpio_step EPD_W21_DC_0
           (gpio_step EPD_W21_CS_0 h)))"

definition EPD_W21_WriteDATA :: "byte \<Rightarrow> harness \<Rightarrow> harness" where
  "EPD_W21_WriteDATA data h =
     gpio_step EPD_W21_CS_1
       (SPI_shift_out data
         (gpio_step EPD_W21_DC_1
           (gpio_step EPD_W21_CS_0 h)))"

section \<open>Properties\<close>

lemmas pin_defs = EPD_CS_PIN_def EPD_DC_PIN_def EPD_RST_PIN_def EPD_BUSY_PIN_def

lemmas macro_defs =
  EPD_W21_CS_0_def EPD_W21_CS_1_def EPD_W21_DC_0_def EPD_W21_DC_1_def
  EPD_W21_RST_0_def EPD_W21_RST_1_def isEPD_W21_BUSY_def digitalWrite_def digitalRead_def

text \<open>
  C1. In each of the three pairs (chip-select, data/command, reset) the \<open>_0\<close> macro
  leaves its pin at \<open>LOW\<close> and the \<open>_1\<close> macro leaves the same pin at \<open>HIGH\<close>,
  whatever the pin state before.
\<close>

theorem assert_low_deassert_high:
  "EPD_W21_CS_0 s EPD_CS_PIN = LOW \<and> EPD_W21_CS_1 s EPD_CS_PIN = HIGH \<and>
   EPD_W21_DC_0 s EPD_DC_PIN = LOW \<and> EPD_W21_DC_1 s EPD_DC_PIN = HIGH \<and>
   EPD_W21_RST_0 s EPD_RST_PIN = LOW \<and> EPD_W21_RST_1 s EPD_RST_PIN = HIGH"
  by (simp add: macro_defs)

text \<open>
  C2. The four pin constants have the fixed values 7 (chip-select), 3 (data/command),
  0 (reset) and 1 (busy): one number for each role, independent of any state.
\<close>

theorem pin_constants:
  "EPD_CS_PIN = 7 \<and> EPD_DC_PIN = 3 \<and> EPD_RST_PIN = 0 \<and> EPD_BUSY_PIN = 1"
  by (simp add: pin_defs)

text \<open>
  C3. In every pin state the busy read yields the level the busy pin has in that state,
  and the pin state after the read is the pin state before it.
\<close>

theorem busy_read_exact:
  "isEPD_W21_BUSY s = (s EPD_BUSY_PIN, s)"
  by (simp add: macro_defs)

text \<open>
  C4. Each control operation leaves every pin other than its own target at the level it
  had: the two chip-select macros every pin but the chip-select pin, the two data/command
  macros every pin but the data/command pin, the two reset macros every pin but the reset
  pin, and the busy read every pin but the busy pin.
\<close>

theorem other_pins_unchanged:
  "(p \<noteq> EPD_CS_PIN \<longrightarrow> EPD_W21_CS_0 s p = s p \<and> EPD_W21_CS_1 s p = s p) \<and>
   (p \<noteq> EPD_DC_PIN \<longrightarrow> EPD_W21_DC_0 s p = s p \<and> EPD_W21_DC_1 s p = s p) \<and>
   (p \<noteq> EPD_RST_PIN \<longrightarrow> EPD_W21_RST_0 s p = s p \<and> EPD_W21_RST_1 s p = s p) \<and>
   (p \<noteq> EPD_BUSY_PIN \<longrightarrow> snd (isEPD_W21_BUSY s) p = s p)"
  by (simp add: macro_defs)

theorem other_pins_unchanged_witness:
  "(5 \<noteq> EPD_CS_PIN \<and> 5 \<noteq> EPD_DC_PIN \<and> 5 \<noteq> EPD_RST_PIN \<and> 5 \<noteq> EPD_BUSY_PIN) \<and>
   EPD_W21_CS_0 (\<lambda>_. HIGH) 5 = HIGH \<and> EPD_W21_CS_1 (\<lambda>_. LOW) 5 = LOW \<and>
   EPD_W21_DC_0 (\<lambda>_. HIGH) 5 = HIGH \<and> EPD_W21_DC_1 (\<lambda>_. LOW) 5 = LOW \<and>
   EPD_W21_RST_0 (\<lambda>_. HIGH) 5 = HIGH \<and> EPD_W21_RST_1 (\<lambda>_. LOW) 5 = LOW \<and>
   snd (isEPD_W21_BUSY (\<lambda>_. HIGH)) 5 = HIGH"
  using other_pins_unchanged [of 5 "\<lambda>_. HIGH"] other_pins_unchanged [of 5 "\<lambda>_. LOW"]
  by (simp add: pin_defs)

text \<open>
  C5. For every byte and from every harness state, \<open>EPD_W21_WriteCMD\<close> and
  \<open>EPD_W21_WriteDATA\<close> add exactly four entries to the log, in this order: chip-select
  driven low; the data/command line set (low for a command, high for data) with
  chip-select still low; the byte shifted out, with chip-select low and the data/command
  line at the level of the mode during the transfer; chip-select driven high, the
  data/command line keeping its level.
\<close>

theorem write_sequence:
  "log (EPD_W21_WriteCMD b h) =
     log h @ [Pins (EPD_W21_CS_0 (pins h)),
              Pins (EPD_W21_DC_0 (EPD_W21_CS_0 (pins h))),
              Shift b (EPD_W21_DC_0 (EPD_W21_CS_0 (pins h))),
              Pins (EPD_W21_CS_1 (EPD_W21_DC_0 (EPD_W21_CS_0 (pins h))))] \<and>
   log (EPD_W21_WriteDATA b h) =
     log h @ [Pins (EPD_W21_CS_0 (pins h)),
              Pins (EPD_W21_DC_1 (EPD_W21_CS_0 (pins h))),
              Shift b (EPD_W21_DC_1 (EPD_W21_CS_0 (pins h))),
              Pins (EPD_W21_CS_1 (EPD_W21_DC_1 (EPD_W21_CS_0 (pins h))))] \<and>
   EPD_W21_CS_0 (pins h) EPD_CS_PIN = LOW \<and>
   EPD_W21_DC_0 (EPD_W21_CS_0 (pins h)) EPD_CS_PIN = LOW \<and>
   EPD_W21_DC_0 (EPD_W21_CS_0 (pins h)) EPD_DC_PIN = LOW \<and>
   EPD_W21_DC_1 (EPD_W21_CS_0 (pins h)) EPD_CS_PIN = LOW \<and>
   EPD_W21_DC_1 (EPD_W21_CS_0 (pins h)) EPD_DC_PIN = HIGH \<and>
   pins (EPD_W21_WriteCMD b h) = EPD_W21_CS_1 (EPD_W21_DC_0 (EPD_W21_CS_0 (pins h))) \<and>
   pins (EPD_W21_WriteDATA b h) = EPD_W21_CS_1 (EPD_W21_DC_1 (EPD_W21_CS_0 (pins h))) \<and>
   pins (EPD_W21_WriteCMD b h) EPD_CS_PIN = HIGH \<and>
   pins (EPD_W21_WriteCMD b h) EPD_DC_PIN = LOW \<and>
   pins (EPD_W21_WriteDATA b h) EPD_CS_PIN = HIGH \<and>
   pins (EPD_W21_WriteDATA b h) EPD_DC_PIN = HIGH"
  by (simp add: EPD_W21_WriteCMD_def EPD_W21_WriteDATA_def gpio_step_def SPI_shift_out_def
      Let_def macro_defs pin_defs)

text \<open>
  C6. Both prototypes return \<open>void\<close> and have exactly one parameter, of type
  \<open>unsigned char\<close>, an unsigned type of eight bits.
\<close>

theorem write_prototypes:
  "ret EPD_W21_WriteCMD_decl = Void \<and>
   map fst (params EPD_W21_WriteCMD_decl) = [UnsignedChar] \<and>
   ret EPD_W21_WriteDATA_decl = Void \<and>
   map fst (params EPD_W21_WriteDATA_decl) = [UnsignedChar] \<and>
   ctype_bits UnsignedChar = 8 \<and> ctype_signed UnsignedChar = False"
  by (simp add: EPD_W21_WriteCMD_decl_def EPD_W21_WriteDATA_decl_def)

text \<open>
  C8. The four pin numbers are pairwise distinct, and none of the six writing macros
  changes the level of the busy pin, whatever that level is.
\<close>

theorem pins_distinct_busy_read_only:
  "distinct [EPD_CS_PIN, EPD_DC_PIN, EPD_RST_PIN, EPD_BUSY_PIN] \<and>
   EPD_W21_CS_0 s EPD_BUSY_PIN = s EPD_BUSY_PIN \<and>
   EPD_W21_CS_1 s EPD_BUSY_PIN = s EPD_BUSY_PIN \<and>
   EPD_W21_DC_0 s EPD_BUSY_PIN = s EPD_BUSY_PIN \<and>
   EPD_W21_DC_1 s EPD_BUSY_PIN = s EPD_BUSY_PIN \<and>
   EPD_W21_RST_0 s EPD_BUSY_PIN = s EPD_BUSY_PIN \<and>
   EPD_W21_RST_1 s EPD_BUSY_PIN = s EPD_BUSY_PIN"
  by (simp add: macro_defs pin_defs)

text \<open>
  C9. Running any of the six writing macros twice in a row gives the pin state that
  running it once gives.
\<close>

theorem macros_idempotent:
  "EPD_W21_CS_0 (EPD_W21_CS_0 s) = EPD_W21_CS_0 s \<and>
   EPD_W21_CS_1 (EPD_W21_CS_1 s) = EPD_W21_CS_1 s \<and>
   EPD_W21_DC_0 (EPD_W21_DC_0 s) = EPD_W21_DC_0 s \<and>
   EPD_W21_DC_1 (EPD_W21_DC_1 s) = EPD_W21_DC_1 s \<and>
   EPD_W21_RST_0 (EPD_W21_RST_0 s) = EPD_W21_RST_0 s \<and>
   EPD_W21_RST_1 (EPD_W21_RST_1 s) = EPD_W21_RST_1 s"
  by (simp add: macro_defs)

text \<open>
  C10. Two writing macros with different target pins commute: for every pair made of a
  chip-select macro and a data/command macro, of a chip-select macro and a reset macro,
  or of a data/command macro and a reset macro, both orders give the same pin state.
\<close>

theorem macros_commute:
  "EPD_W21_CS_0 (EPD_W21_DC_0 s) = EPD_W21_DC_0 (EPD_W21_CS_0 s) \<and>
   EPD_W21_CS_0 (EPD_W21_DC_1 s) = EPD_W21_DC_1 (EPD_W21_CS_0 s) \<and>
   EPD_W21_CS_1 (EPD_W21_DC_0 s) = EPD_W21_DC_0 (EPD_W21_CS_1 s) \<and>
   EPD_W21_CS_1 (EPD_W21_DC_1 s) = EPD_W21_DC_1 (EPD_W21_CS_1 s) \<and>
   EPD_W21_CS_0 (EPD_W21_RST_0 s) = EPD_W21_RST_0 (EPD_W21_CS_0 s) \<and>
   EPD_W21_CS_0 (EPD_W21_RST_1 s) = EPD_W21_RST_1 (EPD_W21_CS_0 s) \<and>
   EPD_W21_CS_1 (EPD_W21_RST_0 s) = EPD_W21_RST_0 (EPD_W21_CS_1 s) \<and>
   EPD_W21_CS_1 (EPD_W21_RST_1 s) = EPD_W21_RST_1 (EPD_W21_CS_1 s) \<and>
   EPD_W21_DC_0 (EPD_W21_RST_0 s) = EPD_W21_RST_0 (EPD_W21_DC_0 s) \<and>
   EPD_W21_DC_0 (EPD_W21_RST_1 s) = EPD_W21_RST_1 (EPD_W21_DC_0 s) \<and>
   EPD_W21_DC_1 (EPD_W21_RST_0 s) = EPD_W21_RST_0 (EPD_W21_DC_1 s) \<and>
   EPD_W21_DC_1 (EPD_W21_RST_1 s) = EPD_W21_RST_1 (EPD_W21_DC_1 s)"
  by (simp add: macro_defs pin_defs fun_eq_iff)

end
